theory Spec2Isabelle
  imports Main
begin

section \<open>The Access CA certificate resource of the Cloudflare provider\<close>

text \<open>
  A shallow embedding of \<^verbatim>\<open>internal/provider/resource_cloudflare_access_ca_certificate.go\<close>:
  the five lifecycle hooks (Create, Read, Update, Delete, Import) of the resource.
  A hook receives the resource data \<^verbatim>\<open>d\<close> (a pointer, mutated in place) and the provider's
  \<^verbatim>\<open>meta\<close> value; here it takes a world holding the resource data, the state of the remote
  service and the list of remote calls issued so far, and returns the world it leaves.
  The \<^verbatim>\<open>tflog\<close> calls write to the logger only and are left out.
\<close>

subsection \<open>Go errors and diagnostics\<close>

text \<open>
  An error is kept as the value that built it, not as its rendered text:
  \<^verbatim>\<open>errors.New(msg)\<close>, \<^verbatim>\<open>fmt.Errorf(format, args...)\<close> with the operands of its
  \<^verbatim>\<open>%s\<close> and \<^verbatim>\<open>%q\<close> verbs in order, and the same with a trailing \<^verbatim>\<open>%w\<close> operand, which is
  the error that \<^verbatim>\<open>Unwrap\<close> returns. The client library's errors are leaves: its
  \<^verbatim>\<open>*cloudflare.NotFoundError\<close> and any other error, each with its text.
\<close>

datatype fmt_arg = ArgS string | ArgQ string

datatype error =
    NotFoundError string
  | ClientError string
  | errors_New string
  | Errorf string "fmt_arg list"
  | ErrorfW string "fmt_arg list" error

text \<open>\<^verbatim>\<open>errors.As(err, &notFoundError)\<close>: is there a \<^verbatim>\<open>*cloudflare.NotFoundError\<close> on the
  chain of \<^verbatim>\<open>Unwrap\<close>s of \<^verbatim>\<open>err\<close>.\<close>

fun errors_As_NotFoundError :: "error \<Rightarrow> bool" where
  "errors_As_NotFoundError (NotFoundError m) = True"
| "errors_As_NotFoundError (ClientError m) = False"
| "errors_As_NotFoundError (errors_New m) = False"
| "errors_As_NotFoundError (Errorf f args) = False"
| "errors_As_NotFoundError (ErrorfW f args e) = errors_As_NotFoundError e"

datatype Severity = Error | Warning

text \<open>A diagnostic of the plugin SDK. \<^verbatim>\<open>Summary\<close> is \<^verbatim>\<open>err.Error()\<close> in the SDK; the error
  itself stands for its text here. The value \<^verbatim>\<open>nil\<close> of \<^verbatim>\<open>diag.Diagnostics\<close> is the
  empty list.\<close>

record Diagnostic =
  Severity :: Severity
  Summary :: error

type_synonym Diagnostics = "Diagnostic list"

definition diag_FromErr :: "error \<Rightarrow> Diagnostics" where
  "diag_FromErr err = [\<lparr>Severity = Error, Summary = err\<rparr>]"

subsection \<open>Resource data\<close>

text \<open>
  Modelled from the spec: the schema engine's \<^verbatim>\<open>*schema.ResourceData\<close> (the schema of the
  resource is declared outside this file), "typed field accessors/setters
  (\<^verbatim>\<open>application_id\<close>, \<^verbatim>\<open>aud\<close>, \<^verbatim>\<open>public_key\<close>, \<^verbatim>\<open>account_id\<close>, \<^verbatim>\<open>zone_id\<close>) and identifier
  storage". All five fields are strings; a field that was never set reads as the empty
  string, Go's zero value.
\<close>

record ResourceData =
  rid :: string
  attrs :: "string \<rightharpoonup> string"

definition d_Id :: "ResourceData \<Rightarrow> string" where
  "d_Id d = rid d"

definition d_SetId :: "string \<Rightarrow> ResourceData \<Rightarrow> ResourceData" where
  "d_SetId v d = d\<lparr>rid := v\<rparr>"

definition d_Get :: "string \<Rightarrow> ResourceData \<Rightarrow> string" where
  "d_Get k d = (case attrs d k of None \<Rightarrow> [] | Some v \<Rightarrow> v)"

definition d_Set :: "string \<Rightarrow> string \<Rightarrow> ResourceData \<Rightarrow> ResourceData" where
  "d_Set k v d = d\<lparr>attrs := (attrs d)(k \<mapsto> v)\<rparr>"

subsection \<open>Scope identifiers\<close>

text \<open>
  Modelled from the spec: \<^verbatim>\<open>AccessIdentifierType\<close> is a string type declared outside this
  file, with the two constants \<^verbatim>\<open>AccountType\<close> and \<^verbatim>\<open>ZoneType\<close>; the import ID's "first
  segment must be exactly \<^verbatim>\<open>"account"\<close> or \<^verbatim>\<open>"zone"\<close>", which the code decides by
  comparing the segment with the two constants.
\<close>

type_synonym AccessIdentifierType = string

definition AccountType :: AccessIdentifierType where
  "AccountType = ''account''"

definition ZoneType :: AccessIdentifierType where
  "ZoneType = ''zone''"

record AccessIdentifier =
  Type :: AccessIdentifierType
  Value :: string

text \<open>
  The scope resolver \<^verbatim>\<open>initIdentifier\<close> is declared outside this file. Every hook takes it
  as its first argument, so that what is proved holds for every resolver.
\<close>

type_synonym resolver = "ResourceData \<Rightarrow> error + AccessIdentifier"

text \<open>
  Modelled from the spec: the scope resolver, "given local config, yields
  \<^verbatim>\<open>{Account|Zone}\<close> x containerValue, or fails if neither/both scope fields are set".
  It is the resolver of the concrete runs below.
\<close>

definition initIdentifier :: resolver where
  "initIdentifier d =
     (let accountID = d_Get ''account_id'' d; zoneID = d_Get ''zone_id'' d in
      if accountID = [] \<and> zoneID = [] then
        Inl (errors_New ''error creating Access resource: zone_id or account_id required'')
      else if accountID \<noteq> [] \<and> zoneID \<noteq> [] then
        Inl (errors_New ''error creating Access resource: zone_id and account_id are both set'')
      else if accountID \<noteq> [] then Inr \<lparr>Type = AccountType, Value = accountID\<rparr>
      else Inr \<lparr>Type = ZoneType, Value = zoneID\<rparr>)"

subsection \<open>The remote client\<close>

record cloudflare_AccessCACertificate =
  ID :: string
  Aud :: string
  PublicKey :: string

text \<open>
  The six methods of \<^verbatim>\<open>*cloudflare.API\<close> that the resource calls, each taking the container
  ID and the application ID. The library is not part of the repository: a method is any
  function of the remote service's state \<open>'r\<close>, returning its result and the new state.
\<close>

record 'r API =
  CreateAccessCACertificate ::
    "string \<Rightarrow> string \<Rightarrow> 'r \<Rightarrow> (error + cloudflare_AccessCACertificate) \<times> 'r"
  CreateZoneLevelAccessCACertificate ::
    "string \<Rightarrow> string \<Rightarrow> 'r \<Rightarrow> (error + cloudflare_AccessCACertificate) \<times> 'r"
  AccessCACertificate ::
    "string \<Rightarrow> string \<Rightarrow> 'r \<Rightarrow> (error + cloudflare_AccessCACertificate) \<times> 'r"
  ZoneLevelAccessCACertificate ::
    "string \<Rightarrow> string \<Rightarrow> 'r \<Rightarrow> (error + cloudflare_AccessCACertificate) \<times> 'r"
  DeleteAccessCACertificate :: "string \<Rightarrow> string \<Rightarrow> 'r \<Rightarrow> error option \<times> 'r"
  DeleteZoneLevelAccessCACertificate :: "string \<Rightarrow> string \<Rightarrow> 'r \<Rightarrow> error option \<times> 'r"

text \<open>\<^verbatim>\<open>meta interface{}\<close>: the client, or a value of any other type, on which the type
  assertion \<^verbatim>\<open>meta.(*cloudflare.API)\<close> panics.\<close>

datatype 'r meta = Client "'r API" | NotAClient

datatype remote_call =
    CallCreateAccessCACertificate string string
  | CallCreateZoneLevelAccessCACertificate string string
  | CallAccessCACertificate string string
  | CallZoneLevelAccessCACertificate string string
  | CallDeleteAccessCACertificate string string
  | CallDeleteZoneLevelAccessCACertificate string string

record 'r world =
  rd :: ResourceData
  remote :: 'r
  calls :: "remote_call list"

text \<open>A remote call runs the method on the remote state and is appended to the calls.\<close>

definition invoke :: "remote_call \<Rightarrow> ('r \<Rightarrow> 'a \<times> 'r) \<Rightarrow> 'r world \<Rightarrow> 'a \<times> 'r world" where
  "invoke c m w =
     (case m (remote w) of (res, r') \<Rightarrow> (res, w\<lparr>remote := r', calls := calls w @ [c]\<rparr>))"

subsection \<open>The lifecycle hooks\<close>

text \<open>A hook returns \<open>None\<close> when it panics, and its result with the world it leaves
  otherwise.\<close>

definition resourceCloudflareAccessCACertificateRead ::
  "resolver \<Rightarrow> 'r meta \<Rightarrow> 'r world \<Rightarrow> (Diagnostics \<times> 'r world) option" where
  "resourceCloudflareAccessCACertificateRead init m w =
     (case m of
        NotAClient \<Rightarrow> None
      | Client client \<Rightarrow>
          (let applicationID = d_Get ''application_id'' (rd w) in
           case init (rd w) of
             Inl err \<Rightarrow> Some (diag_FromErr err, w)
           | Inr identifier \<Rightarrow>
               (case (if Type identifier = AccountType
                      then invoke (CallAccessCACertificate (Value identifier) applicationID)
                             (AccessCACertificate client (Value identifier) applicationID) w
                      else invoke (CallZoneLevelAccessCACertificate (Value identifier) applicationID)
                             (ZoneLevelAccessCACertificate client (Value identifier) applicationID) w)
                of
                  (Inl err, w1) \<Rightarrow>
                    if errors_As_NotFoundError err
                    then Some ([], w1\<lparr>rd := d_SetId [] (rd w1)\<rparr>)
                    else Some (diag_FromErr
                                 (ErrorfW ''error finding Access CA Certificate %q: %w''
                                    [ArgQ (d_Id (rd w1))] err), w1)
                | (Inr accessCACert, w1) \<Rightarrow>
                    Some ([], w1\<lparr>rd := d_Set ''public_key'' (PublicKey accessCACert)
                                          (d_Set ''aud'' (Aud accessCACert) (rd w1))\<rparr>))))"

definition resourceCloudflareAccessCACertificateCreate ::
  "resolver \<Rightarrow> 'r meta \<Rightarrow> 'r world \<Rightarrow> (Diagnostics \<times> 'r world) option" where
  "resourceCloudflareAccessCACertificateCreate init m w =
     (case m of
        NotAClient \<Rightarrow> None
      | Client client \<Rightarrow>
          (case init (rd w) of
             Inl err \<Rightarrow> Some (diag_FromErr err, w)
           | Inr identifier \<Rightarrow>
               (case (if Type identifier = AccountType
                      then invoke (CallCreateAccessCACertificate (Value identifier)
                                     (d_Get ''application_id'' (rd w)))
                             (CreateAccessCACertificate client (Value identifier)
                                (d_Get ''application_id'' (rd w))) w
                      else invoke (CallCreateZoneLevelAccessCACertificate (Value identifier)
                                     (d_Get ''application_id'' (rd w)))
                             (CreateZoneLevelAccessCACertificate client (Value identifier)
                                (d_Get ''application_id'' (rd w))) w)
                of
                  (Inl err, w1) \<Rightarrow>
                    Some (diag_FromErr
                            (ErrorfW ''error creating Access CA Certificate for %s %q: %w''
                               [ArgS (Type identifier), ArgQ (Value identifier)] err), w1)
                | (Inr accessCACert, w1) \<Rightarrow>
                    resourceCloudflareAccessCACertificateRead init m
                      (w1\<lparr>rd := d_SetId (ID accessCACert) (rd w1)\<rparr>))))"

definition resourceCloudflareAccessCACertificateUpdate ::
  "resolver \<Rightarrow> 'r meta \<Rightarrow> 'r world \<Rightarrow> (Diagnostics \<times> 'r world) option" where
  "resourceCloudflareAccessCACertificateUpdate init m w = Some ([], w)"

definition resourceCloudflareAccessCACertificateDelete ::
  "resolver \<Rightarrow> 'r meta \<Rightarrow> 'r world \<Rightarrow> (Diagnostics \<times> 'r world) option" where
  "resourceCloudflareAccessCACertificateDelete init m w =
     (case m of
        NotAClient \<Rightarrow> None
      | Client client \<Rightarrow>
          (let applicationID = d_Get ''application_id'' (rd w) in
           case init (rd w) of
             Inl err \<Rightarrow> Some (diag_FromErr err, w)
           | Inr identifier \<Rightarrow>
               (case (if Type identifier = AccountType
                      then invoke (CallDeleteAccessCACertificate (Value identifier) applicationID)
                             (DeleteAccessCACertificate client (Value identifier) applicationID) w
                      else invoke (CallDeleteZoneLevelAccessCACertificate (Value identifier)
                                     applicationID)
                             (DeleteZoneLevelAccessCACertificate client (Value identifier)
                                applicationID) w)
                of
                  (Some err, w1) \<Rightarrow> Some (diag_FromErr err, w1)
                | (None, w1) \<Rightarrow> Some ([], w1\<lparr>rd := d_SetId [] (rd w1)\<rparr>))))"

subsection \<open>Import\<close>

text \<open>\<^verbatim>\<open>strings.SplitN(s, sep, n)\<close> for a separator of one byte and \<open>n \<ge> 0\<close>: at most \<open>n\<close>
  parts, the last one the unsplit rest.\<close>

fun SplitN :: "string \<Rightarrow> char \<Rightarrow> nat \<Rightarrow> string list" where
  "SplitN s sep 0 = []"
| "SplitN s sep (Suc 0) = [s]"
| "SplitN s sep (Suc (Suc n)) =
     (if sep \<in> set s
      then takeWhile (\<lambda>c. c \<noteq> sep) s # SplitN (tl (dropWhile (\<lambda>c. c \<noteq> sep) s)) sep (Suc n)
      else [s])"

definition import_format :: string where
  \<open>import_format =
     ''invalid id ("%s") specified, should be in format "account/accountID/accessCACertificateID" or "zone/zoneID/accessCACertificateID"''\<close>

definition resourceCloudflareAccessCACertificateImport ::
  "resolver \<Rightarrow> 'r meta \<Rightarrow> 'r world \<Rightarrow> ((error + ResourceData list) \<times> 'r world) option" where
  "resourceCloudflareAccessCACertificateImport init m w =
     (let attributes = SplitN (d_Id (rd w)) (CHR ''/'') 3 in
      if length attributes \<noteq> 3 then Some (Inl (Errorf import_format [ArgS (d_Id (rd w))]), w)
      else
        (let identifierType = attributes ! 0;
             identifierID = attributes ! 1;
             accessCACertificateID = attributes ! 2 in
         if identifierType \<noteq> AccountType \<and> identifierType \<noteq> ZoneType
         then Some (Inl (Errorf import_format [ArgS (d_Id (rd w))]), w)
         else
           (case resourceCloudflareAccessCACertificateRead init m
                   (w\<lparr>rd := d_SetId accessCACertificateID
                               (d_Set (identifierType @ ''_id'') identifierID (rd w))\<rparr>) of
              None \<Rightarrow> None
            | Some (readErr, w2) \<Rightarrow>
                if readErr \<noteq> []
                then Some (Inl (errors_New ''failed to read Access CA Certificate state''), w2)
                else Some (Inr [rd w2], w2))))"

subsection \<open>Vocabulary of the properties\<close>

text \<open>The scope-appropriate remote operation for a resolved scope, and the call it is
  recorded as: the account-level method when the scope's type is \<open>AccountType\<close>, the
  zone-level one otherwise.\<close>

definition remote_create ::
  "'r API \<Rightarrow> AccessIdentifier \<Rightarrow> string \<Rightarrow> 'r \<Rightarrow> (error + cloudflare_AccessCACertificate) \<times> 'r" where
  "remote_create client i app =
     (if Type i = AccountType then CreateAccessCACertificate client (Value i) app
      else CreateZoneLevelAccessCACertificate client (Value i) app)"

definition create_call :: "AccessIdentifier \<Rightarrow> string \<Rightarrow> remote_call" where
  "create_call i app =
     (if Type i = AccountType then CallCreateAccessCACertificate (Value i) app
      else CallCreateZoneLevelAccessCACertificate (Value i) app)"

definition remote_get ::
  "'r API \<Rightarrow> AccessIdentifier \<Rightarrow> string \<Rightarrow> 'r \<Rightarrow> (error + cloudflare_AccessCACertificate) \<times> 'r" where
  "remote_get client i app =
     (if Type i = AccountType then AccessCACertificate client (Value i) app
      else ZoneLevelAccessCACertificate client (Value i) app)"

definition get_call :: "AccessIdentifier \<Rightarrow> string \<Rightarrow> remote_call" where
  "get_call i app =
     (if Type i = AccountType then CallAccessCACertificate (Value i) app
      else CallZoneLevelAccessCACertificate (Value i) app)"

definition remote_delete ::
  "'r API \<Rightarrow> AccessIdentifier \<Rightarrow> string \<Rightarrow> 'r \<Rightarrow> error option \<times> 'r" where
  "remote_delete client i app =
     (if Type i = AccountType then DeleteAccessCACertificate client (Value i) app
      else DeleteZoneLevelAccessCACertificate client (Value i) app)"

definition delete_call :: "AccessIdentifier \<Rightarrow> string \<Rightarrow> remote_call" where
  "delete_call i app =
     (if Type i = AccountType then CallDeleteAccessCACertificate (Value i) app
      else CallDeleteZoneLevelAccessCACertificate (Value i) app)"

text \<open>The remote calls that one run of Read on the resource data \<open>d\<close> issues: the get of
  the resolved scope and the configured application, or none when the scope does not
  resolve.\<close>

definition read_calls :: "resolver \<Rightarrow> ResourceData \<Rightarrow> remote_call list" where
  "read_calls init d =
     (case init d of Inl err \<Rightarrow> [] | Inr i \<Rightarrow> [get_call i (d_Get ''application_id'' d)])"

text \<open>Read takes its Not-Found branch: the scope resolves and the scope-appropriate
  remote get fails with an error that is, or wraps, a \<^verbatim>\<open>*cloudflare.NotFoundError\<close>.\<close>

definition read_not_found :: "resolver \<Rightarrow> 'r API \<Rightarrow> 'r world \<Rightarrow> bool" where
  "read_not_found init api w =
     (case init (rd w) of
        Inl e \<Rightarrow> False
      | Inr i \<Rightarrow>
          (case fst (remote_get api i (d_Get ''application_id'' (rd w)) (remote w)) of
             Inl err \<Rightarrow> errors_As_NotFoundError err
           | Inr cert \<Rightarrow> False))"

text \<open>The import ID as the specification words it: \<^verbatim>\<open>strings.Split\<close> on \<open>/\<close> gives
  exactly three segments, none of them empty, the first one \<^verbatim>\<open>account\<close> or \<^verbatim>\<open>zone\<close>.\<close>

fun Split :: "string \<Rightarrow> char \<Rightarrow> string list" where
  "Split [] sep = [] # []"
| "Split (c # cs) sep =
     (if c = sep then [] # Split cs sep
      else (case Split cs sep of [] \<Rightarrow> [c] # [] | x # xs \<Rightarrow> (c # x) # xs))"

definition spec_valid_import_id :: "string \<Rightarrow> bool" where
  "spec_valid_import_id s =
     (case Split s (CHR ''/'') of
        [a, b, c] \<Rightarrow> a \<noteq> [] \<and> b \<noteq> [] \<and> c \<noteq> [] \<and> (a = ''account'' \<or> a = ''zone'')
      | _ \<Rightarrow> False)"

subsection \<open>A client for concrete runs\<close>

text \<open>A client whose remote state counts the requests served and whose create, get
  and delete methods answer with fixed results, at either scope.\<close>

definition stub_API ::
  "error + cloudflare_AccessCACertificate \<Rightarrow> error + cloudflare_AccessCACertificate \<Rightarrow>
   error option \<Rightarrow> nat API" where
  "stub_API created got deleted =
     \<lparr>CreateAccessCACertificate = (\<lambda>c a r. (created, Suc r)),
      CreateZoneLevelAccessCACertificate = (\<lambda>c a r. (created, Suc r)),
      AccessCACertificate = (\<lambda>c a r. (got, Suc r)),
      ZoneLevelAccessCACertificate = (\<lambda>c a r. (got, Suc r)),
      DeleteAccessCACertificate = (\<lambda>c a r. (deleted, Suc r)),
      DeleteZoneLevelAccessCACertificate = (\<lambda>c a r. (deleted, Suc r))\<rparr>"

definition cert0 :: cloudflare_AccessCACertificate where
  "cert0 = \<lparr>ID = ''cert789'', Aud = ''aud1'', PublicKey = ''ecdsa-sha2-nistp256 AAAA''\<rparr>"

text \<open>A local state with an account scope and one with a zone scope.\<close>

definition account_d :: ResourceData where
  "account_d = \<lparr>rid = ''cert789'',
                attrs = [''account_id'' \<mapsto> ''acc123'', ''application_id'' \<mapsto> ''app456'',
                         ''aud'' \<mapsto> ''old-aud'']\<rparr>"

definition zone_d :: ResourceData where
  "zone_d = \<lparr>rid = ''cert789'',
             attrs = [''zone_id'' \<mapsto> ''zone42'', ''application_id'' \<mapsto> ''app456'']\<rparr>"

definition world0 :: "ResourceData \<Rightarrow> nat world" where
  "world0 d = \<lparr>rd = d, remote = 0, calls = []\<rparr>"

section \<open>Facts about Read\<close>

text \<open>Setting the identifier changes no field, and the order in which the parts of a
  world are updated does not matter.\<close>

lemma d_Get_SetId [simp]: "d_Get k (d_SetId v d) = d_Get k d"
  by (simp add: d_Get_def d_SetId_def)

lemma world_update_order [simp]:
  "w\<lparr>remote := r, calls := c, rd := x\<rparr> = w\<lparr>rd := x, remote := r, calls := c\<rparr>"
  by simp

text \<open>Read on a client whose scope resolves: the three outcomes of the remote get.\<close>

lemma Read_resolved:
  assumes "init (rd w) = Inr i"
    and "remote_get api i (d_Get ''application_id'' (rd w)) (remote w) = (res, r1)"
  shows "resourceCloudflareAccessCACertificateRead init (Client api) w =
     (case res of
        Inl err \<Rightarrow>
          if errors_As_NotFoundError err
          then Some ([], w\<lparr>rd := d_SetId [] (rd w), remote := r1,
                           calls := calls w @ [get_call i (d_Get ''application_id'' (rd w))]\<rparr>)
          else Some (diag_FromErr (ErrorfW ''error finding Access CA Certificate %q: %w''
                                     [ArgQ (d_Id (rd w))] err),
                     w\<lparr>remote := r1,
                       calls := calls w @ [get_call i (d_Get ''application_id'' (rd w))]\<rparr>)
      | Inr cert \<Rightarrow>
          Some ([], w\<lparr>rd := d_Set ''public_key'' (PublicKey cert) (d_Set ''aud'' (Aud cert) (rd w)),
                      remote := r1,
                      calls := calls w @ [get_call i (d_Get ''application_id'' (rd w))]\<rparr>))"
  using assms
  by (auto simp: resourceCloudflareAccessCACertificateRead_def remote_get_def get_call_def
      invoke_def Let_def split: sum.splits if_splits)

lemma Read_unresolved:
  "init (rd w) = Inl err \<Longrightarrow>
   resourceCloudflareAccessCACertificateRead init (Client api) w = Some (diag_FromErr err, w)"
  by (simp add: resourceCloudflareAccessCACertificateRead_def)

text \<open>Read on a client never panics.\<close>

lemma Read_returns:
  "\<exists>diags w'. resourceCloudflareAccessCACertificateRead init (Client api) w = Some (diags, w')"
proof (cases "init (rd w)")
  case (Inl err)
  then show ?thesis by (simp add: Read_unresolved)
next
  case (Inr i)
  obtain res r1 where g: "remote_get api i (d_Get ''application_id'' (rd w)) (remote w) = (res, r1)"
    by (cases "remote_get api i (d_Get ''application_id'' (rd w)) (remote w)") 
  from Read_resolved [of init w i api res r1, OF Inr g] show ?thesis
    by (cases res) auto
qed

text \<open>One run of Read issues the get of the resolved scope and nothing else.\<close>

lemma Read_calls:
  assumes "resourceCloudflareAccessCACertificateRead init (Client api) w = Some (diags, w')"
  shows "calls w' = calls w @ read_calls init (rd w)"
proof (cases "init (rd w)")
  case (Inl err)
  with assms show ?thesis by (simp add: Read_unresolved read_calls_def)
next
  case (Inr i)
  obtain res r1 where g: "remote_get api i (d_Get ''application_id'' (rd w)) (remote w) = (res, r1)"
    by (cases "remote_get api i (d_Get ''application_id'' (rd w)) (remote w)") 
  from Read_resolved [of init w i api res r1, OF Inr g] assms Inr show ?thesis
    by (cases res) (auto simp: read_calls_def split: if_splits)
qed

text \<open>Read writes no field but \<^verbatim>\<open>aud\<close> and \<^verbatim>\<open>public_key\<close>.\<close>

lemma Read_frame:
  assumes "resourceCloudflareAccessCACertificateRead init (Client api) w = Some (diags, w')"
    and "f \<noteq> ''aud''" and "f \<noteq> ''public_key''"
  shows "attrs (rd w') f = attrs (rd w) f"
proof (cases "init (rd w)")
  case (Inl err)
  with assms show ?thesis by (simp add: Read_unresolved)
next
  case (Inr i)
  obtain res r1 where g: "remote_get api i (d_Get ''application_id'' (rd w)) (remote w) = (res, r1)"
    by (cases "remote_get api i (d_Get ''application_id'' (rd w)) (remote w)") 
  from Read_resolved [of init w i api res r1, OF Inr g] assms show ?thesis
    by (cases res) (auto simp: d_Set_def d_SetId_def split: if_splits)
qed

text \<open>A Read that reports diagnostics leaves the resource data alone, and its diagnostics
  are errors.\<close>

lemma Read_failure_keeps_id:
  assumes "resourceCloudflareAccessCACertificateRead init (Client api) w = Some (diags, w')"
    and "diags \<noteq> []"
  shows "rd w' = rd w \<and> (\<forall>x\<in>set diags. Severity x = Error)"
proof (cases "init (rd w)")
  case (Inl err)
  with assms show ?thesis by (auto simp add: Read_unresolved diag_FromErr_def)
next
  case (Inr i)
  obtain res r1 where g: "remote_get api i (d_Get ''application_id'' (rd w)) (remote w) = (res, r1)"
    by (cases "remote_get api i (d_Get ''application_id'' (rd w)) (remote w)") 
  from Read_resolved [of init w i api res r1, OF Inr g] assms show ?thesis
    by (cases res) (auto simp: diag_FromErr_def split: if_splits)
qed

lemma Read_not_found_step:
  assumes "read_not_found init api w"
  shows "\<exists>r1. resourceCloudflareAccessCACertificateRead init (Client api) w =
           Some ([], w\<lparr>rd := d_SetId [] (rd w), remote := r1,
                       calls := calls w @ read_calls init (rd w)\<rparr>)"
proof -
  from assms obtain i where i: "init (rd w) = Inr i"
    by (auto simp: read_not_found_def split: sum.splits)
  obtain res r1 where g: "remote_get api i (d_Get ''application_id'' (rd w)) (remote w) = (res, r1)"
    by (cases "remote_get api i (d_Get ''application_id'' (rd w)) (remote w)")
  from assms i g obtain err where "res = Inl err" "errors_As_NotFoundError err"
    by (auto simp: read_not_found_def split: sum.splits)
  with Read_resolved [of init w i api res r1, OF i g] i show ?thesis
    by (auto simp: read_calls_def)
qed

text \<open>The identifier after Read: cleared in the Not-Found branch, kept otherwise.\<close>

lemma Read_id:
  assumes "resourceCloudflareAccessCACertificateRead init (Client api) w = Some (diags, w')"
  shows "d_Id (rd w') = (if read_not_found init api w then [] else d_Id (rd w))"
proof (cases "init (rd w)")
  case (Inl err)
  with assms show ?thesis by (simp add: Read_unresolved read_not_found_def)
next
  case (Inr i)
  obtain res r1 where g: "remote_get api i (d_Get ''application_id'' (rd w)) (remote w) = (res, r1)"
    by (cases "remote_get api i (d_Get ''application_id'' (rd w)) (remote w)") 
  from Read_resolved [of init w i api res r1, OF Inr g] assms Inr g show ?thesis
    by (cases res) (auto simp: read_not_found_def d_Id_def d_SetId_def d_Set_def split: if_splits)
qed

lemma Create_resolved:
  assumes "init (rd w) = Inr i"
    and "remote_create api i (d_Get ''application_id'' (rd w)) (remote w) = (res, r1)"
  shows "resourceCloudflareAccessCACertificateCreate init (Client api) w =
     (case res of
        Inl err \<Rightarrow>
          Some (diag_FromErr (ErrorfW ''error creating Access CA Certificate for %s %q: %w''
                                [ArgS (Type i), ArgQ (Value i)] err),
                w\<lparr>remote := r1,
                  calls := calls w @ [create_call i (d_Get ''application_id'' (rd w))]\<rparr>)
      | Inr cert \<Rightarrow>
          resourceCloudflareAccessCACertificateRead init (Client api)
            (w\<lparr>rd := d_SetId (ID cert) (rd w), remote := r1,
               calls := calls w @ [create_call i (d_Get ''application_id'' (rd w))]\<rparr>))"
  using assms
  by (auto simp: resourceCloudflareAccessCACertificateCreate_def remote_create_def create_call_def
      invoke_def split: sum.splits if_splits)

section \<open>Facts about \<^verbatim>\<open>strings.SplitN\<close> and Import\<close>

lemma takeWhile_upto_sep: "sep \<notin> set a \<Longrightarrow> takeWhile (\<lambda>c. c \<noteq> sep) (a @ sep # b) = a"
  by (induction a) auto

lemma dropWhile_upto_sep: "sep \<notin> set a \<Longrightarrow> dropWhile (\<lambda>c. c \<noteq> sep) (a @ sep # b) = sep # b"
  by (induction a) auto

lemma SplitN_three_parts:
  assumes "sep \<notin> set k" and "sep \<notin> set a"
  shows "SplitN (k @ sep # a @ sep # c) sep 3 = [k, a, c]"
  using assms
  by (simp add: numeral_3_eq_3 takeWhile_upto_sep dropWhile_upto_sep)

lemma count_sep_split:
  "sep \<in> set s \<Longrightarrow>
   length (filter (\<lambda>c. c = sep) s) =
     Suc (length (filter (\<lambda>c. c = sep) (tl (dropWhile (\<lambda>c. c \<noteq> sep) s))))"
  by (induction s) auto

lemma count_sep_pos: "0 < length (filter (\<lambda>c. c = sep) s) \<longleftrightarrow> sep \<in> set s"
  by (induction s) auto

text \<open>Three parts come out exactly when the string holds at least two separators.\<close>

lemma SplitN_3_length:
  "length (SplitN s sep 3) = 3 \<longleftrightarrow> 2 \<le> length (filter (\<lambda>c. c = sep) s)"
proof (cases "sep \<in> set s")
  case False
  then have "length (filter (\<lambda>c. c = sep) s) = 0"
    using count_sep_pos [of sep s] by simp
  with False show ?thesis by (simp add: numeral_3_eq_3)
next
  case True
  let ?rest = "tl (dropWhile (\<lambda>c. c \<noteq> sep) s)"
  have "length (SplitN s sep 3) = 3 \<longleftrightarrow> sep \<in> set ?rest"
    using True by (simp add: numeral_3_eq_3)
  also have "\<dots> \<longleftrightarrow> 0 < length (filter (\<lambda>c. c = sep) ?rest)"
    by (simp only: count_sep_pos)
  also have "\<dots> \<longleftrightarrow> 2 \<le> length (filter (\<lambda>c. c = sep) s)"
    using count_sep_split [OF True] by arith
  finally show ?thesis .
qed

text \<open>The first part is what stands before the first separator.\<close>

lemma SplitN_3_first:
  "SplitN s sep 3 ! 0 = takeWhile (\<lambda>c. c \<noteq> sep) s"
proof (cases "sep \<in> set s")
  case True
  then show ?thesis by (simp add: numeral_3_eq_3)
next
  case False
  then have t: "takeWhile (\<lambda>c. c \<noteq> sep) s = s"
    by (induction s) auto
  from False have "SplitN s sep 3 = [s]"
    by (simp add: numeral_3_eq_3)
  then show ?thesis
    by (simp only: t nth_Cons_0)
qed

text \<open>Import on an ID of the shape \<open>k/a/c\<close>, with \<open>k\<close> one of the two scope kinds and no
  \<open>/\<close> in \<open>a\<close>: the container field \<open>k_id\<close> and the identifier are set, then Read runs.\<close>

lemma Import_wellformed:
  assumes "k = AccountType \<or> k = ZoneType"
    and "CHR ''/'' \<notin> set a"
    and "d_Id (rd w) = k @ CHR ''/'' # a @ CHR ''/'' # c"
  shows "resourceCloudflareAccessCACertificateImport init m w =
     (case resourceCloudflareAccessCACertificateRead init m
             (w\<lparr>rd := d_SetId c (d_Set (k @ ''_id'') a (rd w))\<rparr>) of
        None \<Rightarrow> None
      | Some (readErr, w2) \<Rightarrow>
          if readErr \<noteq> []
          then Some (Inl (errors_New ''failed to read Access CA Certificate state''), w2)
          else Some (Inr [rd w2], w2))"
proof -
  from assms(1) have "CHR ''/'' \<notin> set k"
    by (auto simp: AccountType_def ZoneType_def)
  with assms(2,3) have "SplitN (d_Id (rd w)) (CHR ''/'') 3 = [k, a, c]"
    by (simp add: SplitN_three_parts)
  with assms(1) show ?thesis
    by (auto simp: resourceCloudflareAccessCACertificateImport_def)
qed

text \<open>The definitions that a concrete run unfolds.\<close>

lemmas run_defs =
  resourceCloudflareAccessCACertificateRead_def resourceCloudflareAccessCACertificateCreate_def
  resourceCloudflareAccessCACertificateDelete_def resourceCloudflareAccessCACertificateImport_def
  initIdentifier_def stub_API_def cert0_def account_d_def zone_d_def world0_def
  d_Id_def d_SetId_def d_Get_def d_Set_def invoke_def diag_FromErr_def
  AccountType_def ZoneType_def remote_get_def get_call_def remote_create_def create_call_def
  remote_delete_def delete_call_def read_calls_def read_not_found_def

section \<open>Update\<close>

text \<open>
  C6. For every input state and every meta value (a client or not), Update issues no
  remote call, changes nothing of the local state and returns no diagnostics: for every
  resolver, meta value and world it returns the empty diagnostics and the very world it
  was given, so the resource data, the remote state and the list of remote calls are
  the same.
\<close>

theorem Update_is_noop:
  "resourceCloudflareAccessCACertificateUpdate init m w = Some ([], w)"
  by (simp add: resourceCloudflareAccessCACertificateUpdate_def)

section \<open>Read\<close>

text \<open>
  C2. For every state whose scope resolves, if the remote get invoked by Read fails with a
  Not-Found error, Read sets the local identifier to the empty string and returns no
  diagnostics; and when Read is repeated on the state it left and the resource is still
  absent (the get fails with Not-Found again), it again returns no diagnostics with the
  empty identifier, and the local state stays as the first Read left it.
\<close>

theorem Read_not_found_clears_id:
  assumes "read_not_found init api w"
  shows "\<exists>w1. resourceCloudflareAccessCACertificateRead init (Client api) w = Some ([], w1) \<and>
           d_Id (rd w1) = [] \<and>
           (read_not_found init api w1 \<longrightarrow>
              (\<exists>w2. resourceCloudflareAccessCACertificateRead init (Client api) w1 = Some ([], w2) \<and>
                    d_Id (rd w2) = [] \<and> rd w2 = rd w1))"
proof -
  from Read_not_found_step [OF assms] obtain r1 where
    1: "resourceCloudflareAccessCACertificateRead init (Client api) w =
           Some ([], w\<lparr>rd := d_SetId [] (rd w), remote := r1,
                       calls := calls w @ read_calls init (rd w)\<rparr>)" (is "_ = Some ([], ?w1)")
    by blast
  have 2: "d_Id (rd ?w1) = []"
    by (simp add: d_Id_def d_SetId_def)
  have 3: "\<exists>w2. resourceCloudflareAccessCACertificateRead init (Client api) ?w1 = Some ([], w2) \<and>
                    d_Id (rd w2) = [] \<and> rd w2 = rd ?w1" if "read_not_found init api ?w1"
    using Read_not_found_step [OF that] by (auto simp: d_Id_def d_SetId_def)
  from 1 2 3 show ?thesis by blast
qed

theorem Read_not_found_clears_id_witness:
  "read_not_found initIdentifier (stub_API (Inr cert0) (Inl (NotFoundError ''not found'')) None)
     (world0 account_d) \<and>
   resourceCloudflareAccessCACertificateRead initIdentifier
     (Client (stub_API (Inr cert0) (Inl (NotFoundError ''not found'')) None)) (world0 account_d) =
   Some ([], \<lparr>rd = account_d\<lparr>rid := []\<rparr>, remote = 1,
               calls = [CallAccessCACertificate ''acc123'' ''app456'']\<rparr>) \<and>
   read_not_found initIdentifier (stub_API (Inr cert0) (Inl (NotFoundError ''not found'')) None)
     \<lparr>rd = account_d\<lparr>rid := []\<rparr>, remote = 1,
      calls = [CallAccessCACertificate ''acc123'' ''app456'']\<rparr> \<and>
   resourceCloudflareAccessCACertificateRead initIdentifier
     (Client (stub_API (Inr cert0) (Inl (NotFoundError ''not found'')) None))
     \<lparr>rd = account_d\<lparr>rid := []\<rparr>, remote = 1,
      calls = [CallAccessCACertificate ''acc123'' ''app456'']\<rparr> =
   Some ([], \<lparr>rd = account_d\<lparr>rid := []\<rparr>, remote = 2,
               calls = [CallAccessCACertificate ''acc123'' ''app456'',
                        CallAccessCACertificate ''acc123'' ''app456'']\<rparr>)"
  using Read_not_found_clears_id
    [of initIdentifier "stub_API (Inr cert0) (Inl (NotFoundError ''not found'')) None"
        "world0 account_d"]
  by (simp add: run_defs)

text \<open>
  C7. Whenever the scope resolves and the remote get invoked by Read succeeds, Read returns
  no diagnostics and the local state it leaves is the one it was given with exactly the
  fields \<^verbatim>\<open>aud\<close> and \<^verbatim>\<open>public_key\<close> overwritten from the fetched entity: the local
  identifier, \<^verbatim>\<open>application_id\<close>, \<^verbatim>\<open>account_id\<close>, \<^verbatim>\<open>zone_id\<close> and every other field are
  as before (the fetched entity's own identifier is not written anywhere).
\<close>

theorem Read_success_overwrites:
  assumes "init (rd w) = Inr i"
    and "remote_get api i (d_Get ''application_id'' (rd w)) (remote w) = (Inr cert, r1)"
  shows "resourceCloudflareAccessCACertificateRead init (Client api) w =
           Some ([], w\<lparr>rd := (rd w)\<lparr>attrs := (attrs (rd w))(''aud'' \<mapsto> Aud cert,
                                                             ''public_key'' \<mapsto> PublicKey cert)\<rparr>,
                       remote := r1,
                       calls := calls w @ [get_call i (d_Get ''application_id'' (rd w))]\<rparr>)"
  using Read_resolved [of init w i api "Inr cert" r1, OF assms] by (simp add: d_Set_def)

theorem Read_success_overwrites_witness:
  "initIdentifier account_d = Inr \<lparr>Type = AccountType, Value = ''acc123''\<rparr> \<and>
   resourceCloudflareAccessCACertificateRead initIdentifier
     (Client (stub_API (Inl (ClientError ''unused'')) (Inr cert0) None)) (world0 account_d) =
   Some ([], \<lparr>rd = \<lparr>rid = ''cert789'',
                      attrs = [''account_id'' \<mapsto> ''acc123'', ''application_id'' \<mapsto> ''app456'',
                               ''aud'' \<mapsto> ''aud1'',
                               ''public_key'' \<mapsto> ''ecdsa-sha2-nistp256 AAAA'']\<rparr>,
               remote = 1, calls = [CallAccessCACertificate ''acc123'' ''app456'']\<rparr>)"
proof -
  have h: "initIdentifier (rd (world0 account_d)) = Inr \<lparr>Type = AccountType, Value = ''acc123''\<rparr>"
    by (simp add: run_defs)
  have g: "remote_get (stub_API (Inl (ClientError ''unused'')) (Inr cert0) None)
             \<lparr>Type = AccountType, Value = ''acc123''\<rparr>
             (d_Get ''application_id'' (rd (world0 account_d))) (remote (world0 account_d)) =
           (Inr cert0, 1)"
    by (simp add: run_defs)
  from Read_success_overwrites [where init = initIdentifier and w = "world0 account_d", OF h g] h
  show ?thesis
    by (simp add: run_defs)
qed

text \<open>
  C10. When Read takes the Not-Found branch, the only change of the local state is that
  the local identifier is cleared: every field (\<^verbatim>\<open>aud\<close>, \<^verbatim>\<open>public_key\<close>,
  \<^verbatim>\<open>application_id\<close>, \<^verbatim>\<open>account_id\<close>, \<^verbatim>\<open>zone_id\<close>) keeps its prior value. The concrete run
  is on a zone scope, with a Not-Found error wrapped in another error.
\<close>

theorem Read_not_found_frame:
  assumes "read_not_found init api w"
  shows "\<exists>w1. resourceCloudflareAccessCACertificateRead init (Client api) w = Some ([], w1) \<and>
           rd w1 = (rd w)\<lparr>rid := []\<rparr> \<and> attrs (rd w1) = attrs (rd w)"
  using Read_not_found_step [OF assms] by (auto simp: d_SetId_def)

theorem Read_not_found_frame_witness:
  "read_not_found initIdentifier
     (stub_API (Inr cert0) (Inl (ErrorfW ''get: %w'' [] (NotFoundError ''gone''))) None)
     (world0 zone_d) \<and>
   resourceCloudflareAccessCACertificateRead initIdentifier
     (Client (stub_API (Inr cert0) (Inl (ErrorfW ''get: %w'' [] (NotFoundError ''gone''))) None))
     (world0 zone_d) =
   Some ([], \<lparr>rd = \<lparr>rid = [],
                      attrs = [''zone_id'' \<mapsto> ''zone42'', ''application_id'' \<mapsto> ''app456'']\<rparr>,
               remote = 1, calls = [CallZoneLevelAccessCACertificate ''zone42'' ''app456'']\<rparr>)"
  using Read_not_found_frame
    [of initIdentifier
        "stub_API (Inr cert0) (Inl (ErrorfW ''get: %w'' [] (NotFoundError ''gone''))) None"
        "world0 zone_d"]
  by (simp add: run_defs)

section \<open>Create\<close>

text \<open>
  C4. Whenever the scope resolves: if the scope-appropriate remote create succeeds, Create
  stores the identifier of the returned entity as the local identifier and then is one run
  of Read on that state (so the calls it issues are the create followed by the calls of
  that one Read); if the remote create fails, Create issues no further call (no Read), and
  returns one error diagnostic wrapping the remote error in a message formatted with the
  scope kind and the scope value.
\<close>

theorem Create_outcome:
  assumes "init (rd w) = Inr i"
    and "remote_create api i (d_Get ''application_id'' (rd w)) (remote w) = (res, r1)"
  shows "(\<forall>cert. res = Inr cert \<longrightarrow>
            resourceCloudflareAccessCACertificateCreate init (Client api) w =
              resourceCloudflareAccessCACertificateRead init (Client api)
                (w\<lparr>rd := d_SetId (ID cert) (rd w), remote := r1,
                   calls := calls w @ [create_call i (d_Get ''application_id'' (rd w))]\<rparr>) \<and>
            (\<exists>diags w2. resourceCloudflareAccessCACertificateCreate init (Client api) w =
                          Some (diags, w2) \<and>
                        calls w2 = calls w @ create_call i (d_Get ''application_id'' (rd w)) #
                                     read_calls init (d_SetId (ID cert) (rd w)))) \<and>
         (\<forall>err. res = Inl err \<longrightarrow>
            resourceCloudflareAccessCACertificateCreate init (Client api) w =
              Some ([\<lparr>Severity = Error,
                      Summary = ErrorfW ''error creating Access CA Certificate for %s %q: %w''
                                  [ArgS (Type i), ArgQ (Value i)] err\<rparr>],
                    w\<lparr>remote := r1,
                      calls := calls w @ [create_call i (d_Get ''application_id'' (rd w))]\<rparr>))"
proof (intro conjI allI impI)
  fix cert assume "res = Inr cert"
  with Create_resolved [of init w i api res r1, OF assms]
  show c: "resourceCloudflareAccessCACertificateCreate init (Client api) w =
           resourceCloudflareAccessCACertificateRead init (Client api)
             (w\<lparr>rd := d_SetId (ID cert) (rd w), remote := r1,
                calls := calls w @ [create_call i (d_Get ''application_id'' (rd w))]\<rparr>)"
    (is "_ = resourceCloudflareAccessCACertificateRead _ _ ?w1")
    by simp
  from Read_returns [of init api ?w1] obtain diags w2 where
    r: "resourceCloudflareAccessCACertificateRead init (Client api) ?w1 = Some (diags, w2)"
    by blast
  from Read_calls [OF r] c r
  show "\<exists>diags w2. resourceCloudflareAccessCACertificateCreate init (Client api) w =
                          Some (diags, w2) \<and>
                        calls w2 = calls w @ create_call i (d_Get ''application_id'' (rd w)) #
                                     read_calls init (d_SetId (ID cert) (rd w))"
    by simp
next
  fix err assume "res = Inl err"
  with Create_resolved [of init w i api res r1, OF assms]
  show "resourceCloudflareAccessCACertificateCreate init (Client api) w =
              Some ([\<lparr>Severity = Error,
                      Summary = ErrorfW ''error creating Access CA Certificate for %s %q: %w''
                                  [ArgS (Type i), ArgQ (Value i)] err\<rparr>],
                    w\<lparr>remote := r1,
                      calls := calls w @ [create_call i (d_Get ''application_id'' (rd w))]\<rparr>)"
    by (simp add: diag_FromErr_def)
qed

theorem Create_outcome_witness:
  "initIdentifier zone_d = Inr \<lparr>Type = ZoneType, Value = ''zone42''\<rparr> \<and>
   resourceCloudflareAccessCACertificateCreate initIdentifier
     (Client (stub_API (Inr (cert0\<lparr>ID := ''cert-new''\<rparr>)) (Inr cert0) None)) (world0 zone_d) =
   Some ([], \<lparr>rd = \<lparr>rid = ''cert-new'',
                      attrs = [''zone_id'' \<mapsto> ''zone42'', ''application_id'' \<mapsto> ''app456'',
                               ''aud'' \<mapsto> ''aud1'',
                               ''public_key'' \<mapsto> ''ecdsa-sha2-nistp256 AAAA'']\<rparr>,
               remote = 2,
               calls = [CallCreateZoneLevelAccessCACertificate ''zone42'' ''app456'',
                        CallZoneLevelAccessCACertificate ''zone42'' ''app456'']\<rparr>) \<and>
   resourceCloudflareAccessCACertificateCreate initIdentifier
     (Client (stub_API (Inl (ClientError ''quota'')) (Inr cert0) None)) (world0 zone_d) =
   Some ([\<lparr>Severity = Error,
           Summary = ErrorfW ''error creating Access CA Certificate for %s %q: %w''
                       [ArgS ''zone'', ArgQ ''zone42''] (ClientError ''quota'')\<rparr>],
         \<lparr>rd = zone_d, remote = 1,
          calls = [CallCreateZoneLevelAccessCACertificate ''zone42'' ''app456'']\<rparr>)"
proof -
  let ?i = "\<lparr>Type = ZoneType, Value = ''zone42''\<rparr>"
  have h: "initIdentifier (rd (world0 zone_d)) = Inr ?i"
    by (simp add: run_defs)
  have ok: "remote_create (stub_API (Inr (cert0\<lparr>ID := ''cert-new''\<rparr>)) (Inr cert0) None) ?i
              (d_Get ''application_id'' (rd (world0 zone_d))) (remote (world0 zone_d)) =
            (Inr (cert0\<lparr>ID := ''cert-new''\<rparr>), 1)"
    by (simp add: run_defs)
  have ko: "remote_create (stub_API (Inl (ClientError ''quota'')) (Inr cert0) None) ?i
              (d_Get ''application_id'' (rd (world0 zone_d))) (remote (world0 zone_d)) =
            (Inl (ClientError ''quota''), 1)"
    by (simp add: run_defs)
  from Create_outcome [where init = initIdentifier and w = "world0 zone_d", OF h ok]
    Create_outcome [where init = initIdentifier and w = "world0 zone_d", OF h ko] h
  show ?thesis
    by (simp add: run_defs)
qed

text \<open>
  C9. If the remote create succeeds but the Read at the end of Create reports diagnostics
  (so it did not take its Not-Found branch), Create returns exactly those diagnostics, all
  of them errors, and the local state is the one it was given with the local identifier
  set to the identifier the remote create returned; the calls issued are the create and
  those of the one Read, so nothing rolls the creation back.
\<close>

theorem Create_keeps_id_when_Read_fails:
  assumes "init (rd w) = Inr i"
    and "remote_create api i (d_Get ''application_id'' (rd w)) (remote w) = (Inr cert, r1)"
    and "resourceCloudflareAccessCACertificateRead init (Client api)
           (w\<lparr>rd := d_SetId (ID cert) (rd w), remote := r1,
              calls := calls w @ [create_call i (d_Get ''application_id'' (rd w))]\<rparr>) =
         Some (diags, w2)"
    and "diags \<noteq> []"
  shows "resourceCloudflareAccessCACertificateCreate init (Client api) w = Some (diags, w2) \<and>
         rd w2 = (rd w)\<lparr>rid := ID cert\<rparr> \<and>
         d_Id (rd w2) = ID cert \<and>
         (\<forall>x\<in>set diags. Severity x = Error) \<and>
         \<not> read_not_found init api
             (w\<lparr>rd := d_SetId (ID cert) (rd w), remote := r1,
                calls := calls w @ [create_call i (d_Get ''application_id'' (rd w))]\<rparr>) \<and>
         calls w2 = calls w @ create_call i (d_Get ''application_id'' (rd w)) #
                      read_calls init (d_SetId (ID cert) (rd w))"
proof -
  let ?w1 = "w\<lparr>rd := d_SetId (ID cert) (rd w), remote := r1,
               calls := calls w @ [create_call i (d_Get ''application_id'' (rd w))]\<rparr>"
  have c: "resourceCloudflareAccessCACertificateCreate init (Client api) w = Some (diags, w2)"
    using Create_resolved [of init w i api "Inr cert" r1, OF assms(1,2)] assms(3) by simp
  have k: "rd w2 = rd ?w1" and e: "\<forall>x\<in>set diags. Severity x = Error"
    using Read_failure_keeps_id [OF assms(3,4)] by simp_all
  from k have d: "rd w2 = (rd w)\<lparr>rid := ID cert\<rparr>" "d_Id (rd w2) = ID cert"
    by (simp_all add: d_Id_def d_SetId_def)
  have n: "\<not> read_not_found init api ?w1"
  proof
    assume "read_not_found init api ?w1"
    from Read_not_found_step [OF this] assms(3,4) show False by auto
  qed
  have l: "calls w2 = calls w @ create_call i (d_Get ''application_id'' (rd w)) #
                      read_calls init (d_SetId (ID cert) (rd w))"
    using Read_calls [OF assms(3)] by simp
  from c d e n l show ?thesis by blast
qed

theorem Create_keeps_id_when_Read_fails_witness:
  "initIdentifier account_d = Inr \<lparr>Type = AccountType, Value = ''acc123''\<rparr> \<and>
   resourceCloudflareAccessCACertificateCreate initIdentifier
     (Client (stub_API (Inr (cert0\<lparr>ID := ''cert-new''\<rparr>))
                (Inl (ClientError ''internal server error'')) None))
     (world0 account_d) =
   Some ([\<lparr>Severity = Error,
           Summary = ErrorfW ''error finding Access CA Certificate %q: %w''
                       [ArgQ ''cert-new''] (ClientError ''internal server error'')\<rparr>],
         \<lparr>rd = account_d\<lparr>rid := ''cert-new''\<rparr>, remote = 2,
          calls = [CallCreateAccessCACertificate ''acc123'' ''app456'',
                   CallAccessCACertificate ''acc123'' ''app456'']\<rparr>)"
proof -
  let ?i = "\<lparr>Type = AccountType, Value = ''acc123''\<rparr>"
  let ?api = "stub_API (Inr (cert0\<lparr>ID := ''cert-new''\<rparr>))
                (Inl (ClientError ''internal server error'')) None"
  let ?w = "world0 account_d"
  let ?d = "[\<lparr>Severity = Error,
              Summary = ErrorfW ''error finding Access CA Certificate %q: %w''
                          [ArgQ ''cert-new''] (ClientError ''internal server error'')\<rparr>]"
  let ?w2 = "\<lparr>rd = account_d\<lparr>rid := ''cert-new''\<rparr>, remote = 2::nat,
              calls = [CallCreateAccessCACertificate ''acc123'' ''app456'',
                       CallAccessCACertificate ''acc123'' ''app456'']\<rparr>"
  have h: "initIdentifier (rd ?w) = Inr ?i"
    by (simp add: run_defs)
  have c: "remote_create ?api ?i (d_Get ''application_id'' (rd ?w)) (remote ?w) =
            (Inr (cert0\<lparr>ID := ''cert-new''\<rparr>), 1)"
    by (simp add: run_defs)
  have r: "resourceCloudflareAccessCACertificateRead initIdentifier (Client ?api)
             (?w\<lparr>rd := d_SetId (ID (cert0\<lparr>ID := ''cert-new''\<rparr>)) (rd ?w), remote := 1,
                calls := calls ?w @ [create_call ?i (d_Get ''application_id'' (rd ?w))]\<rparr>) =
           Some (?d, ?w2)"
    by (simp add: run_defs)
  have n: "?d \<noteq> []" by simp
  from Create_keeps_id_when_Read_fails
         [where init = initIdentifier and w = ?w, OF h c r n] h
  show ?thesis
    by (simp add: run_defs)
qed

section \<open>Delete\<close>

text \<open>
  C5. For every state whose scope resolves: if the scope-appropriate remote delete
  succeeds, Delete clears the local identifier and returns no diagnostics; if it fails,
  Delete leaves the local state (the identifier with it) unchanged and returns one error
  diagnostic carrying the remote error as it is, unwrapped.
\<close>

theorem Delete_outcome:
  assumes "init (rd w) = Inr i"
    and "remote_delete api i (d_Get ''application_id'' (rd w)) (remote w) = (res, r1)"
  shows "(res = None \<longrightarrow>
            resourceCloudflareAccessCACertificateDelete init (Client api) w =
              Some ([], w\<lparr>rd := d_SetId [] (rd w), remote := r1,
                          calls := calls w @ [delete_call i (d_Get ''application_id'' (rd w))]\<rparr>)) \<and>
         (\<forall>err. res = Some err \<longrightarrow>
            resourceCloudflareAccessCACertificateDelete init (Client api) w =
              Some ([\<lparr>Severity = Error, Summary = err\<rparr>],
                    w\<lparr>remote := r1,
                      calls := calls w @ [delete_call i (d_Get ''application_id'' (rd w))]\<rparr>))"
  using assms
  by (auto simp: resourceCloudflareAccessCACertificateDelete_def remote_delete_def delete_call_def
      invoke_def diag_FromErr_def split: if_splits)

theorem Delete_outcome_witness:
  "initIdentifier account_d = Inr \<lparr>Type = AccountType, Value = ''acc123''\<rparr> \<and>
   resourceCloudflareAccessCACertificateDelete initIdentifier
     (Client (stub_API (Inr cert0) (Inr cert0) None)) (world0 account_d) =
   Some ([], \<lparr>rd = account_d\<lparr>rid := []\<rparr>, remote = 1,
               calls = [CallDeleteAccessCACertificate ''acc123'' ''app456'']\<rparr>) \<and>
   resourceCloudflareAccessCACertificateDelete initIdentifier
     (Client (stub_API (Inr cert0) (Inr cert0) (Some (ClientError ''forbidden''))))
     (world0 account_d) =
   Some ([\<lparr>Severity = Error, Summary = ClientError ''forbidden''\<rparr>],
         \<lparr>rd = account_d, remote = 1,
          calls = [CallDeleteAccessCACertificate ''acc123'' ''app456'']\<rparr>)"
proof -
  let ?i = "\<lparr>Type = AccountType, Value = ''acc123''\<rparr>"
  have h: "initIdentifier (rd (world0 account_d)) = Inr ?i"
    by (simp add: run_defs)
  have ok: "remote_delete (stub_API (Inr cert0) (Inr cert0) None) ?i
              (d_Get ''application_id'' (rd (world0 account_d))) (remote (world0 account_d)) =
            (None, 1)"
    by (simp add: run_defs)
  have ko: "remote_delete (stub_API (Inr cert0) (Inr cert0) (Some (ClientError ''forbidden''))) ?i
              (d_Get ''application_id'' (rd (world0 account_d))) (remote (world0 account_d)) =
            (Some (ClientError ''forbidden''), 1)"
    by (simp add: run_defs)
  from Delete_outcome [where init = initIdentifier and w = "world0 account_d", OF h ok]
    Delete_outcome [where init = initIdentifier and w = "world0 account_d", OF h ko] h
  show ?thesis
    by (simp add: run_defs)
qed

section \<open>Import\<close>

text \<open>
  C1, as the specification states it, does not hold: an import ID need not split into
  exactly three non-empty segments to be accepted. \<^verbatim>\<open>strings.SplitN(id, "/", 3)\<close> stops
  splitting after the second \<open>/\<close>, and the code checks the number of parts only. So
  \<^verbatim>\<open>account/acc123/\<close>, whose third segment is empty, is accepted and imported with an
  empty identifier, and \<^verbatim>\<open>zone/zone42/cert789/extra\<close>, which has four segments, is
  accepted with the identifier \<^verbatim>\<open>cert789/extra\<close>; in both runs the container field is
  set and the remote get is called.
\<close>

theorem Import_format_counterexample:
  "\<not> spec_valid_import_id ''account/acc123/'' \<and>
   resourceCloudflareAccessCACertificateImport initIdentifier
     (Client (stub_API (Inr cert0) (Inr cert0) None))
     (world0 \<lparr>rid = ''account/acc123/'', attrs = Map.empty\<rparr>) =
   Some (Inr [\<lparr>rid = [],
              attrs = [''account_id'' \<mapsto> ''acc123'', ''aud'' \<mapsto> ''aud1'',
                       ''public_key'' \<mapsto> ''ecdsa-sha2-nistp256 AAAA'']\<rparr>],
         \<lparr>rd = \<lparr>rid = [],
                 attrs = [''account_id'' \<mapsto> ''acc123'', ''aud'' \<mapsto> ''aud1'',
                          ''public_key'' \<mapsto> ''ecdsa-sha2-nistp256 AAAA'']\<rparr>,
          remote = 1, calls = [CallAccessCACertificate ''acc123'' []]\<rparr>) \<and>
   \<not> spec_valid_import_id ''zone/zone42/cert789/extra'' \<and>
   resourceCloudflareAccessCACertificateImport initIdentifier
     (Client (stub_API (Inr cert0) (Inr cert0) None))
     (world0 \<lparr>rid = ''zone/zone42/cert789/extra'', attrs = Map.empty\<rparr>) =
   Some (Inr [\<lparr>rid = ''cert789/extra'',
              attrs = [''zone_id'' \<mapsto> ''zone42'', ''aud'' \<mapsto> ''aud1'',
                       ''public_key'' \<mapsto> ''ecdsa-sha2-nistp256 AAAA'']\<rparr>],
         \<lparr>rd = \<lparr>rid = ''cert789/extra'',
                 attrs = [''zone_id'' \<mapsto> ''zone42'', ''aud'' \<mapsto> ''aud1'',
                          ''public_key'' \<mapsto> ''ecdsa-sha2-nistp256 AAAA'']\<rparr>,
          remote = 1, calls = [CallZoneLevelAccessCACertificate ''zone42'' []]\<rparr>)"
  by (simp add: spec_valid_import_id_def run_defs numeral_3_eq_3)

text \<open>
  C1, amended. For every import ID that holds fewer than two \<open>/\<close> (so that
  \<^verbatim>\<open>strings.SplitN(id, "/", 3)\<close> gives fewer than three parts), or whose part before the
  first \<open>/\<close> is not exactly \<^verbatim>\<open>account\<close> or \<^verbatim>\<open>zone\<close>, Import fails with the format error
  that names both accepted forms and quotes the ID, and leaves the world as it was: no
  field and no identifier is set, and no remote call is issued. This holds for every
  resolver and every meta value.
\<close>

theorem Import_rejects_malformed:
  assumes "length (filter (\<lambda>x. x = CHR ''/'') (d_Id (rd w))) < 2 \<or>
           takeWhile (\<lambda>x. x \<noteq> CHR ''/'') (d_Id (rd w)) \<notin> {''account'', ''zone''}"
  shows "resourceCloudflareAccessCACertificateImport init m w =
           Some (Inl (Errorf import_format [ArgS (d_Id (rd w))]), w)"
proof (cases "length (SplitN (d_Id (rd w)) (CHR ''/'') 3) = 3")
  case False
  then show ?thesis
    by (simp add: resourceCloudflareAccessCACertificateImport_def)
next
  case True
  with assms have "takeWhile (\<lambda>x. x \<noteq> CHR ''/'') (d_Id (rd w)) \<notin> {''account'', ''zone''}"
    by (simp add: SplitN_3_length)
  then have "SplitN (d_Id (rd w)) (CHR ''/'') 3 ! 0 \<noteq> AccountType \<and>
             SplitN (d_Id (rd w)) (CHR ''/'') 3 ! 0 \<noteq> ZoneType"
    by (simp add: SplitN_3_first AccountType_def ZoneType_def)
  then show ?thesis
    by (simp add: resourceCloudflareAccessCACertificateImport_def Let_def)
qed

theorem Import_rejects_malformed_witness:
  "length (filter (\<lambda>x. x = CHR ''/'') ''account/acc123'') < 2 \<and>
   resourceCloudflareAccessCACertificateImport initIdentifier
     (Client (stub_API (Inr cert0) (Inr cert0) None))
     (world0 \<lparr>rid = ''account/acc123'', attrs = Map.empty\<rparr>) =
   Some (Inl (Errorf import_format [ArgS ''account/acc123'']),
         world0 \<lparr>rid = ''account/acc123'', attrs = Map.empty\<rparr>) \<and>
   takeWhile (\<lambda>x. x \<noteq> CHR ''/'') ''Account/acc123/cert789'' \<notin> {''account'', ''zone''} \<and>
   resourceCloudflareAccessCACertificateImport initIdentifier
     (Client (stub_API (Inr cert0) (Inr cert0) None))
     (world0 \<lparr>rid = ''Account/acc123/cert789'', attrs = Map.empty\<rparr>) =
   Some (Inl (Errorf import_format [ArgS ''Account/acc123/cert789'']),
         world0 \<lparr>rid = ''Account/acc123/cert789'', attrs = Map.empty\<rparr>)"
  using Import_rejects_malformed
    [where init = initIdentifier and m = "Client (stub_API (Inr cert0) (Inr cert0) None)"
       and w = "world0 \<lparr>rid = ''account/acc123'', attrs = Map.empty\<rparr>"]
    Import_rejects_malformed
    [where init = initIdentifier and m = "Client (stub_API (Inr cert0) (Inr cert0) None)"
       and w = "world0 \<lparr>rid = ''Account/acc123/cert789'', attrs = Map.empty\<rparr>"]
  by (simp add: world0_def d_Id_def)

text \<open>
  C3. For every import ID \<open>k/a/c\<close> with \<open>k\<close> being \<^verbatim>\<open>account\<close> or \<^verbatim>\<open>zone\<close> and no \<open>/\<close>
  in \<open>a\<close>, Import on a client sets the field \<open>k_id\<close> to \<open>a\<close> and the local identifier to
  \<open>c\<close>, and then is one run of Read on that state: its result is that of the Read (a generic
  error when the Read reports diagnostics, the resource data otherwise), the remote calls
  issued are those of that one Read, the field \<open>k_id\<close> is \<open>a\<close> in the end, the scope field
  of the other kind is as it was before Import, and the local identifier is \<open>c\<close> unless
  the Read found the resource absent and cleared it.
\<close>

theorem Import_sets_scope_and_reads_once:
  assumes "k = AccountType \<or> k = ZoneType"
    and "CHR ''/'' \<notin> set a"
    and "d_Id (rd w) = k @ ''/'' @ a @ ''/'' @ c"
  shows "\<exists>diags w2.
           resourceCloudflareAccessCACertificateRead init (Client api)
             (w\<lparr>rd := d_SetId c (d_Set (k @ ''_id'') a (rd w))\<rparr>) = Some (diags, w2) \<and>
           resourceCloudflareAccessCACertificateImport init (Client api) w =
             Some (if diags \<noteq> []
                   then Inl (errors_New ''failed to read Access CA Certificate state'')
                   else Inr [rd w2], w2) \<and>
           calls w2 = calls w @ read_calls init (d_SetId c (d_Set (k @ ''_id'') a (rd w))) \<and>
           attrs (rd w2) (k @ ''_id'') = Some a \<and>
           attrs (rd w2) (if k = AccountType then ''zone_id'' else ''account_id'') =
             attrs (rd w) (if k = AccountType then ''zone_id'' else ''account_id'') \<and>
           d_Id (rd w2) =
             (if read_not_found init api (w\<lparr>rd := d_SetId c (d_Set (k @ ''_id'') a (rd w))\<rparr>)
              then [] else c)"
proof -
  let ?w1 = "w\<lparr>rd := d_SetId c (d_Set (k @ ''_id'') a (rd w))\<rparr>"
  obtain diags w2 where
    r: "resourceCloudflareAccessCACertificateRead init (Client api) ?w1 = Some (diags, w2)"
    using Read_returns [of init api ?w1] by blast
  have i: "resourceCloudflareAccessCACertificateImport init (Client api) w =
             Some (if diags \<noteq> []
                   then Inl (errors_New ''failed to read Access CA Certificate state'')
                   else Inr [rd w2], w2)"
    using Import_wellformed [of k a w c init "Client api"] assms r by simp
  have c: "calls w2 = calls w @ read_calls init (d_SetId c (d_Set (k @ ''_id'') a (rd w)))"
    using Read_calls [OF r] by simp
  have k: "k @ ''_id'' \<noteq> ''aud''" "k @ ''_id'' \<noteq> ''public_key''"
    using assms(1) by (auto simp: AccountType_def ZoneType_def)
  have s: "attrs (rd w2) (k @ ''_id'') = Some a"
    using Read_frame [OF r k] by (simp add: d_SetId_def d_Set_def)
  have o: "attrs (rd w2) (if k = AccountType then ''zone_id'' else ''account_id'') =
             attrs (rd w) (if k = AccountType then ''zone_id'' else ''account_id'')"
    using Read_frame [OF r, of "if k = AccountType then ''zone_id'' else ''account_id''"] assms(1)
    by (auto simp: d_SetId_def d_Set_def AccountType_def ZoneType_def)
  have d: "d_Id (rd w2) = (if read_not_found init api ?w1 then [] else c)"
    using Read_id [OF r] by (simp add: d_Id_def d_SetId_def)
  from r i c s o d show ?thesis by blast
qed

theorem Import_sets_scope_and_reads_once_witness:
  "(AccountType = AccountType \<or> AccountType = ZoneType) \<and> CHR ''/'' \<notin> set ''acc123'' \<and>
   resourceCloudflareAccessCACertificateImport initIdentifier
     (Client (stub_API (Inr cert0) (Inr cert0) None))
     (world0 \<lparr>rid = ''account/acc123/cert789'', attrs = [''application_id'' \<mapsto> ''app456'']\<rparr>) =
   Some (Inr [\<lparr>rid = ''cert789'',
              attrs = [''application_id'' \<mapsto> ''app456'', ''account_id'' \<mapsto> ''acc123'',
                       ''aud'' \<mapsto> ''aud1'', ''public_key'' \<mapsto> ''ecdsa-sha2-nistp256 AAAA'']\<rparr>],
         \<lparr>rd = \<lparr>rid = ''cert789'',
                 attrs = [''application_id'' \<mapsto> ''app456'', ''account_id'' \<mapsto> ''acc123'',
                          ''aud'' \<mapsto> ''aud1'', ''public_key'' \<mapsto> ''ecdsa-sha2-nistp256 AAAA'']\<rparr>,
          remote = 1, calls = [CallAccessCACertificate ''acc123'' ''app456'']\<rparr>)"
  using Import_sets_scope_and_reads_once
    [where init = initIdentifier and api = "stub_API (Inr cert0) (Inr cert0) None"
       and k = AccountType and a = "''acc123''" and c = "''cert789''"
       and w = "world0 \<lparr>rid = ''account/acc123/cert789'',
                          attrs = [''application_id'' \<mapsto> ''app456'']\<rparr>"]
  by (simp add: run_defs numeral_3_eq_3)

text \<open>
  C8. For every well-formed import ID \<open>k/a/c\<close>, if the Read that Import invokes returns
  any diagnostics, Import fails with the fixed error
  \<^verbatim>\<open>failed to read Access CA Certificate state\<close>: a plain \<^verbatim>\<open>errors.New\<close> value that wraps
  nothing and is the same whatever the diagnostics are, so nothing of their detail is in it.
\<close>

theorem Import_read_failure_is_generic:
  assumes "k = AccountType \<or> k = ZoneType"
    and "CHR ''/'' \<notin> set a"
    and "d_Id (rd w) = k @ ''/'' @ a @ ''/'' @ c"
    and "resourceCloudflareAccessCACertificateRead init m
           (w\<lparr>rd := d_SetId c (d_Set (k @ ''_id'') a (rd w))\<rparr>) = Some (diags, w2)"
    and "diags \<noteq> []"
  shows "resourceCloudflareAccessCACertificateImport init m w =
           Some (Inl (errors_New ''failed to read Access CA Certificate state''), w2)"
  using Import_wellformed [of k a w c init m] assms by simp

theorem Import_read_failure_is_generic_witness:
  "(ZoneType = AccountType \<or> ZoneType = ZoneType) \<and> CHR ''/'' \<notin> set ''zone42'' \<and>
   resourceCloudflareAccessCACertificateRead initIdentifier
     (Client (stub_API (Inr cert0) (Inl (ClientError ''connection reset'')) None))
     (world0 \<lparr>rid = ''cert789'', attrs = [''zone_id'' \<mapsto> ''zone42'']\<rparr>) =
   Some ([\<lparr>Severity = Error,
           Summary = ErrorfW ''error finding Access CA Certificate %q: %w''
                       [ArgQ ''cert789''] (ClientError ''connection reset'')\<rparr>],
         \<lparr>rd = \<lparr>rid = ''cert789'', attrs = [''zone_id'' \<mapsto> ''zone42'']\<rparr>,
          remote = 1, calls = [CallZoneLevelAccessCACertificate ''zone42'' []]\<rparr>) \<and>
   resourceCloudflareAccessCACertificateImport initIdentifier
     (Client (stub_API (Inr cert0) (Inl (ClientError ''connection reset'')) None))
     (world0 \<lparr>rid = ''zone/zone42/cert789'', attrs = Map.empty\<rparr>) =
   Some (Inl (errors_New ''failed to read Access CA Certificate state''),
         \<lparr>rd = \<lparr>rid = ''cert789'', attrs = [''zone_id'' \<mapsto> ''zone42'']\<rparr>,
          remote = 1, calls = [CallZoneLevelAccessCACertificate ''zone42'' []]\<rparr>)"
proof -
  let ?api = "stub_API (Inr cert0) (Inl (ClientError ''connection reset'')) None"
  let ?w = "world0 \<lparr>rid = ''zone/zone42/cert789'', attrs = Map.empty\<rparr>"
  let ?d = "[\<lparr>Severity = Error,
           Summary = ErrorfW ''error finding Access CA Certificate %q: %w''
                       [ArgQ ''cert789''] (ClientError ''connection reset'')\<rparr>]"
  let ?w2 = "\<lparr>rd = \<lparr>rid = ''cert789'', attrs = [''zone_id'' \<mapsto> ''zone42'']\<rparr>,
          remote = 1::nat, calls = [CallZoneLevelAccessCACertificate ''zone42'' []]\<rparr>"
  have k: "ZoneType = AccountType \<or> ZoneType = ZoneType" by simp
  have a: "CHR ''/'' \<notin> set ''zone42''" by simp
  have i: "d_Id (rd ?w) = ZoneType @ ''/'' @ ''zone42'' @ ''/'' @ ''cert789''"
    by (simp add: run_defs)
  have r: "resourceCloudflareAccessCACertificateRead initIdentifier (Client ?api)
             (?w\<lparr>rd := d_SetId ''cert789'' (d_Set (ZoneType @ ''_id'') ''zone42'' (rd ?w))\<rparr>) =
           Some (?d, ?w2)"
    by (simp add: run_defs)
  have n: "?d \<noteq> []" by simp
  from Import_read_failure_is_generic [OF k a i r n] r k a show ?thesis
    by (simp add: run_defs)
qed

end
